theory Spec2Isabelle
  imports Complex_Main
begin

section \<open>Battery age estimation: the monitoring loop of \<open>battery_age/age.py\<close>\<close>

text \<open>
  The script is one endless loop over module-level variables. Each iteration sleeps
  half a second, advances the counter \<open>half_sec\<close>, turns the three button levels
  into release events, handles the state transition, and every sixtieth iteration
  appends a voltage reading to the list \<open>voltage\<close> while monitoring.

  The embedding keeps the module-level variables in a record that every block of the
  loop body takes and returns, the lines written by \<open>print\<close> as a list of
  structured lines (the numbers a line formats are kept, their \<open>%4.2f\<close> rendering is
  not), and a Python exception as a value: the loop has no \<open>try\<close>, so an exception
  raised anywhere in an iteration ends the loop.

  Python's floats are modelled as real numbers together with a rounding operator
  \<open>rnd\<close> that is applied to every literal with a fractional part and to the result of
  every floating-point operation. The identity is exact arithmetic; the theorems
  that depend on arithmetic hold for every \<open>rnd\<close> within a stated relative error.
\<close>

subsection \<open>Data\<close>

datatype py_error = ZeroDivisionError | SensorReadError

text \<open>
  The lines the script prints. The two error lines are
  \<open>ERROR: inconsistent charge complete signal\<close> and
  \<open>ERROR: inconsistent charge abort signal\<close>; the seven lines from
  \<open>CapacityEstimateAfter\<close> to \<open>PredictedTotalCapacity\<close> are the ones
  \<open>estimate_capacity\<close> prints, in that order.
\<close>

datatype line =
    EndMonitoring
  | ErrorChargeComplete
  | ErrorChargeAbort
  | BeginMonitoring
  | CapacityEstimateAfter real
  | AverageCurrent real
  | CapacityUsed real
  | VoltageMonitorStart real
  | VoltageMonitorEnd real
  | AdjustedVoltageCutoff real
  | PredictedTotalCapacity real
  | SampleTaken real real

text \<open>The module-level variables that the loop reads and writes.\<close>

record monitor =
  b_cb_down :: bool
  b_cc_down :: bool
  b_ca_down :: bool
  monitoring :: bool
  voltage :: "real list"
  half_sec :: int

text \<open>
  What the hardware presents during one iteration: the levels of the three buttons
  (a pressed button reads \<open>False\<close>) and the 16-bit reading of the analog pin.
  Each button is read twice in an iteration, a few instructions apart; both reads
  are taken to see the same level. \<open>None\<close> for the analog pin stands for a read that
  raises instead of returning a number.
\<close>

record pins =
  s_charge_begin :: bool
  s_charge_complete :: bool
  s_charge_abort :: bool
  voltage_sense :: "int option"

text \<open>The local variables of \<open>estimate_capacity\<close> when it returns.\<close>

record locals =
  v_sum :: real
  i_sum :: real
  i_avg :: real
  energy_used :: real
  v_monitor_start :: real
  v_monitor_end :: real
  v_cutoff :: real
  ratio :: real
  energy_total :: real

subsection \<open>Constants and initial state\<close>

definition load_resistance :: real where
  "load_resistance = 15"

definition samples_per_minute :: real where
  "samples_per_minute = 2"

definition minutes_per_hour :: real where
  "minutes_per_hour = 60"

definition milliamps_per_amp :: real where
  "milliamps_per_amp = 1000"

definition init :: monitor where
  "init = \<lparr>b_cb_down = False, b_cc_down = False, b_ca_down = False,
            monitoring = False, voltage = [], half_sec = 0\<rparr>"

text \<open>
  The standard model of floating-point arithmetic, overflow and underflow aside:
  every rounding moves a value by at most a fixed fraction of its size. IEEE
  binary64 rounds to nearest with relative error at most \<open>2\<^sup>-\<^sup>5\<^sup>3\<close>; the bound
  here, \<open>2\<^sup>-\<^sup>2\<^sup>0\<close>, also admits much shorter formats.
\<close>

definition float_rounding :: "(real \<Rightarrow> real) \<Rightarrow> bool" where
  "float_rounding rnd = (\<forall>x. \<bar>rnd x - x\<bar> \<le> \<bar>x\<bar> / 2 ^ 20)"

subsection \<open>The functions of the script\<close>

text \<open>
  \<open>get_volts\<close>: the reading scaled to volts and divided by the resistor divider
  ratio. The divisor is a float literal; dividing by a float that is zero raises.
\<close>

definition get_volts :: "(real \<Rightarrow> real) \<Rightarrow> int option \<Rightarrow> py_error + real" where
  "get_volts rnd sense =
     (let a2d_analog_max = rnd (33 / 10);
          a2d_digital_max = 65536;
          resistor_divider_ratio = rnd (684 / 1000)
      in case sense of
           None \<Rightarrow> Inl SensorReadError
         | Some reading \<Rightarrow>
             (let ad_volt = rnd (rnd (real_of_int reading * a2d_analog_max) / a2d_digital_max)
              in if resistor_divider_ratio = 0 then Inl ZeroDivisionError
                 else Inr (rnd (ad_volt / resistor_divider_ratio))))"

definition adjusted_cutoff :: "(real \<Rightarrow> real) \<Rightarrow> real \<Rightarrow> real" where
  "adjusted_cutoff rnd load_current =
     (let slope = - rnd (449 / 1000);
          intercept = rnd (3323 / 1000)
      in rnd (rnd (slope * load_current) + intercept))"

text \<open>Python's \<open>sum\<close>: start from 0 and add the elements from left to right.\<close>

definition py_sum :: "(real \<Rightarrow> real) \<Rightarrow> real list \<Rightarrow> real" where
  "py_sum rnd xs = foldl (\<lambda>acc x. rnd (acc + x)) 0 xs"

text \<open>
  \<open>estimate_capacity\<close> reads the list \<open>voltage\<close> and prints seven lines. The result
  is the lines printed, and either the exception that stopped it or its local
  variables at the end. Two divisions have a divisor that can be zero:
  \<open>i_sum / samples\<close> and the one that computes \<open>ratio\<close>. Past the first of them
  the list is not empty, so \<open>voltage[0]\<close> and \<open>voltage[-1]\<close> are its head and its
  last element.
\<close>

definition estimate_capacity :: "(real \<Rightarrow> real) \<Rightarrow> real list \<Rightarrow> line list \<times> (py_error + locals)" where
  "estimate_capacity rnd volts =
     (let samples = length volts;
          out1 = [CapacityEstimateAfter (rnd (real samples / samples_per_minute))];
          v_sum = py_sum rnd volts;
          i_sum = rnd (v_sum / load_resistance)
      in if samples = 0 then (out1, Inl ZeroDivisionError)
         else
          (let i_avg = rnd (i_sum / real samples);
               energy_used = rnd (rnd (i_sum / samples_per_minute) / minutes_per_hour);
               out2 = out1 @ [AverageCurrent (rnd (i_avg * milliamps_per_amp)),
                              CapacityUsed (rnd (energy_used * milliamps_per_amp))];
               v_monitor_start = hd volts;
               v_monitor_end = last volts;
               v_cutoff = adjusted_cutoff rnd i_avg;
               out3 = out2 @ [VoltageMonitorStart v_monitor_start,
                              VoltageMonitorEnd v_monitor_end,
                              AdjustedVoltageCutoff v_cutoff];
               numerator = rnd (v_monitor_start - v_cutoff);
               denominator = rnd (v_monitor_start - v_monitor_end)
           in if denominator = 0 then (out3, Inl ZeroDivisionError)
              else
               (let ratio = rnd (numerator / denominator);
                    energy_total = rnd (ratio * energy_used)
                in (out3 @ [PredictedTotalCapacity (rnd (energy_total * milliamps_per_amp))],
                    Inr \<lparr>v_sum = v_sum, i_sum = i_sum, i_avg = i_avg,
                         energy_used = energy_used, v_monitor_start = v_monitor_start,
                         v_monitor_end = v_monitor_end, v_cutoff = v_cutoff,
                         ratio = ratio, energy_total = energy_total\<rparr>))))"

subsection \<open>The blocks of the loop body\<close>

text \<open>
  Every block returns the variables as it leaves them, the lines it printed and the
  exception it raised, if any.
\<close>

definition count_half_sec :: "monitor \<Rightarrow> monitor" where
  "count_half_sec s =
     (let h = half_sec s + 1 in s\<lparr>half_sec := (if h = 60 then 0 else h)\<rparr>)"

text \<open>A button release: the button was down in the last iteration and reads up now.\<close>

definition detect_events :: "pins \<Rightarrow> monitor \<Rightarrow> (bool \<times> bool \<times> bool) \<times> monitor" where
  "detect_events p s =
     (let event_cb = (b_cb_down s \<and> s_charge_begin p);
          event_cc = (b_cc_down s \<and> s_charge_complete p);
          event_ca = (b_ca_down s \<and> s_charge_abort p)
      in ((event_cb, event_cc, event_ca),
          s\<lparr>b_cb_down := \<not> s_charge_begin p,
            b_cc_down := \<not> s_charge_complete p,
            b_ca_down := \<not> s_charge_abort p\<rparr>))"

fun handle_transitions ::
  "(real \<Rightarrow> real) \<Rightarrow> bool \<times> bool \<times> bool \<Rightarrow> monitor \<Rightarrow> monitor \<times> line list \<times> py_error option" where
  "handle_transitions rnd (event_cb, event_cc, event_ca) s =
     (if monitoring s then
        (if event_cb then
           (case estimate_capacity rnd (voltage s) of
              (out, Inl e) \<Rightarrow> (s, EndMonitoring # out, Some e)
            | (out, Inr _) \<Rightarrow> (s\<lparr>monitoring := False\<rparr>, EndMonitoring # out, None))
         else if event_cc then (s\<lparr>monitoring := False\<rparr>, [ErrorChargeComplete], None)
         else if event_ca then (s\<lparr>monitoring := False\<rparr>, [ErrorChargeAbort], None)
         else (s, [], None))
      else
        (if event_cb then (s, [], None)
         else if event_cc then (s\<lparr>voltage := [], monitoring := True\<rparr>, [BeginMonitoring], None)
         else if event_ca then (s, [], None)
         else (s, [], None)))"

definition grab_data_point ::
  "(real \<Rightarrow> real) \<Rightarrow> pins \<Rightarrow> monitor \<Rightarrow> monitor \<times> line list \<times> py_error option" where
  "grab_data_point rnd p s =
     (if monitoring s \<and> half_sec s = 0 then
        (case get_volts rnd (voltage_sense p) of
           Inl e \<Rightarrow> (s, [], Some e)
         | Inr v_now \<Rightarrow>
             (let s' = s\<lparr>voltage := voltage s @ [v_now]\<rparr>
              in (s', [SampleTaken (rnd (real (length (voltage s')) / samples_per_minute)) v_now],
                  None)))
      else (s, [], None))"

definition loop_body ::
  "(real \<Rightarrow> real) \<Rightarrow> pins \<Rightarrow> monitor \<Rightarrow> monitor \<times> line list \<times> py_error option" where
  "loop_body rnd p s =
     (case detect_events p (count_half_sec s) of
        (events, s2) \<Rightarrow>
          (case handle_transitions rnd events s2 of
             (s3, out3, Some e) \<Rightarrow> (s3, out3, Some e)
           | (s3, out3, None) \<Rightarrow>
               (case grab_data_point rnd p s3 of
                  (s4, out4, r) \<Rightarrow> (s4, out3 @ out4, r))))"

text \<open>
  The loop over the first iterations, one per element of the list of pin levels; it
  stops at the first exception.
\<close>

fun run :: "(real \<Rightarrow> real) \<Rightarrow> pins list \<Rightarrow> monitor \<Rightarrow> monitor \<times> line list \<times> py_error option" where
  "run rnd [] s = (s, [], None)"
| "run rnd (p # ps) s =
     (case loop_body rnd p s of
        (s1, out1, Some e) \<Rightarrow> (s1, out1, Some e)
      | (s1, out1, None) \<Rightarrow>
          (case run rnd ps s1 of (s2, out2, r) \<Rightarrow> (s2, out1 @ out2, r)))"

text \<open>
  The three events of every iteration the loop gets to: the values of
  \<open>event_cb\<close>, \<open>event_cc\<close> and \<open>event_ca\<close>, which are local to the iteration.
\<close>

fun event_trace :: "(real \<Rightarrow> real) \<Rightarrow> pins list \<Rightarrow> monitor \<Rightarrow> (bool \<times> bool \<times> bool) list" where
  "event_trace rnd [] s = []"
| "event_trace rnd (p # ps) s =
     fst (detect_events p (count_half_sec s)) #
       (case loop_body rnd p s of
          (s1, out1, Some e) \<Rightarrow> []
        | (s1, out1, None) \<Rightarrow> event_trace rnd ps s1)"

subsection \<open>Reading the printed lines\<close>

text \<open>
  A capacity report is complete when its last line, the predicted total capacity, has
  been printed; a sample has been appended when its line has been printed.
\<close>

fun predicted_total :: "line \<Rightarrow> bool" where
  "predicted_total (PredictedTotalCapacity x) = True"
| "predicted_total l = False"

fun error_line :: "line \<Rightarrow> bool" where
  "error_line ErrorChargeComplete = True"
| "error_line ErrorChargeAbort = True"
| "error_line l = False"

fun sample_line :: "line \<Rightarrow> bool" where
  "sample_line (SampleTaken m v) = True"
| "sample_line l = False"

definition reports_printed :: "line list \<Rightarrow> nat" where
  "reports_printed out = length (filter predicted_total out)"

definition errors_printed :: "line list \<Rightarrow> nat" where
  "errors_printed out = length (filter error_line out)"

definition samples_printed :: "line list \<Rightarrow> nat" where
  "samples_printed out = length (filter sample_line out)"

subsection \<open>The arbiter of the specification\<close>

text \<open>
  The script has no arbiter of its own: the order of its \<open>if\<close>/\<open>elif\<close> chains
  decides which event counts. The specification describes one, choosing a single
  boundary event by the priority Begin, Complete, Abort. It is written down here
  from the specification's words, to be compared with \<open>handle_transitions\<close>.
\<close>

datatype boundary_event = NoEvent | Begin | Complete | Abort

definition spec_arbiter :: "bool \<Rightarrow> bool \<Rightarrow> bool \<Rightarrow> boundary_event" where
  "spec_arbiter begin_fired complete_fired abort_fired =
     (if begin_fired then Begin
      else if complete_fired then Complete
      else if abort_fired then Abort
      else NoEvent)"

text \<open>The three event flags when exactly the given event has fired.\<close>

fun only_event :: "boundary_event \<Rightarrow> bool \<times> bool \<times> bool" where
  "only_event NoEvent = (False, False, False)"
| "only_event Begin = (True, False, False)"
| "only_event Complete = (False, True, False)"
| "only_event Abort = (False, False, True)"

section \<open>Properties\<close>

subsection \<open>Rounding, and the estimator case by case\<close>

lemmas script_constants =
  load_resistance_def samples_per_minute_def minutes_per_hour_def milliamps_per_amp_def

lemma float_rounding_exact: "float_rounding (\<lambda>x. x)"
  by (simp add: float_rounding_def)

lemma rnd_zero: "float_rounding rnd \<Longrightarrow> rnd 0 = 0"
proof -
  assume "float_rounding rnd"
  then have "\<bar>rnd 0 - 0\<bar> \<le> \<bar>0::real\<bar> / 2 ^ 20"
    unfolding float_rounding_def by blast
  then show ?thesis by simp
qed

lemma rnd_nonzero:
  assumes "float_rounding rnd" and "x \<noteq> 0"
  shows "rnd x \<noteq> 0"
proof
  assume z: "rnd x = 0"
  from assms(1) have "\<bar>rnd x - x\<bar> \<le> \<bar>x\<bar> / 2 ^ 20"
    unfolding float_rounding_def by blast
  with z have "\<bar>x\<bar> \<le> \<bar>x\<bar> / 1048576" by simp
  with assms(2) show False by simp
qed

lemma rnd_eq_zero_iff: "float_rounding rnd \<Longrightarrow> rnd x = 0 \<longleftrightarrow> x = 0"
  using rnd_zero rnd_nonzero by blast

lemma estimate_capacity_empty:
  "estimate_capacity rnd [] = ([CapacityEstimateAfter (rnd 0)], Inl ZeroDivisionError)"
  by (simp add: estimate_capacity_def Let_def script_constants)

lemma estimate_capacity_raises_nonempty:
  assumes "estimate_capacity rnd volts = (out, Inl e)"
  shows "e = ZeroDivisionError \<and> reports_printed out = 0"
  using assms
  by (auto simp add: estimate_capacity_def Let_def reports_printed_def split: if_splits)

lemma estimate_capacity_returns:
  assumes "estimate_capacity rnd volts = (out, Inr l)"
  shows "volts \<noteq> [] \<and> rnd (hd volts - last volts) \<noteq> 0 \<and> reports_printed out = 1 \<and> errors_printed out = 0 \<and> length out = 7"
  using assms
  by (auto simp add: estimate_capacity_def Let_def reports_printed_def errors_printed_def split: if_splits)

lemma estimate_capacity_flat:
  assumes "float_rounding rnd" "volts \<noteq> []" "hd volts = last volts"
  shows "\<exists>out. estimate_capacity rnd volts = (out, Inl ZeroDivisionError) \<and> length out = 6 \<and> reports_printed out = 0"
  using assms
  by (simp add: estimate_capacity_def Let_def reports_printed_def rnd_zero)

lemma estimate_capacity_sloped:
  assumes "float_rounding rnd" "volts \<noteq> []" "hd volts \<noteq> last volts"
  shows "\<exists>out l. estimate_capacity rnd volts = (out, Inr l)"
  using assms
  by (simp add: estimate_capacity_def Let_def rnd_eq_zero_iff)

lemma estimate_capacity_one:
  assumes "float_rounding rnd"
  shows "snd (estimate_capacity rnd [v]) = Inl ZeroDivisionError"
  using assms by (simp add: estimate_capacity_def Let_def rnd_zero)

lemma handle_transitions_report:
  assumes "handle_transitions rnd ev s = (s', out, r)" and "0 < reports_printed out"
  shows "monitoring s \<and> voltage s \<noteq> [] \<and> fst ev \<and> r = None"
proof -
  obtain cb cc ca where ev: "ev = (cb, cc, ca)" by (cases ev) auto
  show ?thesis
  proof (cases "monitoring s \<and> cb")
    case True
    obtain o1 r1 where e: "estimate_capacity rnd (voltage s) = (o1, r1)"
      by (cases "estimate_capacity rnd (voltage s)") auto
    show ?thesis
    proof (cases r1)
      case (Inl err)
      with e have "reports_printed o1 = 0" using estimate_capacity_raises_nonempty by blast
      with assms True ev e Inl show ?thesis by (auto simp add: reports_printed_def)
    next
      case (Inr l)
      with e have "voltage s \<noteq> []" using estimate_capacity_returns by blast
      with assms True ev e Inr show ?thesis by auto
    qed
  next
    case False
    with assms ev show ?thesis
      by (auto simp add: reports_printed_def split: if_splits)
  qed
qed

lemma count_half_sec_fields [simp]:
  "voltage (count_half_sec s) = voltage s"
  "monitoring (count_half_sec s) = monitoring s"
  "b_cb_down (count_half_sec s) = b_cb_down s"
  "b_cc_down (count_half_sec s) = b_cc_down s"
  "b_ca_down (count_half_sec s) = b_ca_down s"
  by (simp_all add: count_half_sec_def Let_def)

lemma detect_events_fields [simp]:
  "voltage (snd (detect_events p s)) = voltage s"
  "monitoring (snd (detect_events p s)) = monitoring s"
  "half_sec (snd (detect_events p s)) = half_sec s"
  "b_cb_down (snd (detect_events p s)) = (\<not> s_charge_begin p)"
  "b_cc_down (snd (detect_events p s)) = (\<not> s_charge_complete p)"
  "b_ca_down (snd (detect_events p s)) = (\<not> s_charge_abort p)"
  by (simp_all add: detect_events_def Let_def)

lemma handle_transitions_fields:
  assumes "handle_transitions rnd ev s = (s', out, r)"
  shows "half_sec s' = half_sec s \<and> b_cb_down s' = b_cb_down s \<and>
         b_cc_down s' = b_cc_down s \<and> b_ca_down s' = b_ca_down s \<and>
         samples_printed out = 0 \<and>
         (voltage s' = voltage s \<or> voltage s' = [] \<and> monitoring s') \<and>
         (r \<noteq> None \<longrightarrow> s' = s)"
proof -
  obtain cb cc ca where ev: "ev = (cb, cc, ca)" by (cases ev) auto
  obtain o1 r1 where e: "estimate_capacity rnd (voltage s) = (o1, r1)"
    by (cases "estimate_capacity rnd (voltage s)") auto
  have "samples_printed o1 = 0"
    using e by (cases r1)
      (auto simp add: estimate_capacity_def Let_def samples_printed_def split: if_splits)
  with assms ev e show ?thesis
    by (cases r1) (auto simp add: samples_printed_def split: if_splits)
qed

lemma grab_data_point_fields:
  assumes "grab_data_point rnd p s = (s', out, r)"
  shows "half_sec s' = half_sec s \<and> monitoring s' = monitoring s \<and>
         b_cb_down s' = b_cb_down s \<and> b_cc_down s' = b_cc_down s \<and>
         b_ca_down s' = b_ca_down s \<and> reports_printed out = 0"
  using assms
  by (auto simp add: grab_data_point_def Let_def reports_printed_def
      split: if_splits sum.splits)

lemma grab_data_point_gate:
  assumes "grab_data_point rnd p s = (s', out, r)"
  shows "(if monitoring s \<and> half_sec s = 0
          then (\<exists>v. get_volts rnd (voltage_sense p) = Inr v \<and> r = None \<and>
                    voltage s' = voltage s @ [v] \<and> samples_printed out = 1) \<or>
               (\<exists>e. get_volts rnd (voltage_sense p) = Inl e \<and> r = Some e \<and>
                    s' = s \<and> out = [])
          else s' = s \<and> out = [] \<and> r = None)"
  using assms
  by (auto simp add: grab_data_point_def Let_def samples_printed_def
      split: if_splits sum.splits)

lemma loop_body_cases:
  assumes "loop_body rnd p s = (s', out, r)"
  obtains (raised) e where
      "handle_transitions rnd (fst (detect_events p (count_half_sec s)))
         (snd (detect_events p (count_half_sec s))) = (s', out, Some e)" "r = Some e"
  | (went_on) s3 out3 out4 where
      "handle_transitions rnd (fst (detect_events p (count_half_sec s)))
         (snd (detect_events p (count_half_sec s))) = (s3, out3, None)"
      "grab_data_point rnd p s3 = (s', out4, r)" "out = out3 @ out4"
  using assms
  by (auto simp add: loop_body_def split: prod.splits option.splits)

lemma get_volts_returns:
  assumes "float_rounding rnd"
  shows "\<exists>v. get_volts rnd (Some reading) = Inr v"
  using assms by (simp add: get_volts_def Let_def rnd_eq_zero_iff)

lemma loop_body_fields:
  assumes "loop_body rnd p s = (s', out, r)"
  shows "b_cb_down s' = (\<not> s_charge_begin p) \<and> b_cc_down s' = (\<not> s_charge_complete p) \<and>
         b_ca_down s' = (\<not> s_charge_abort p) \<and> half_sec s' = half_sec (count_half_sec s)"
  using assms
proof (cases rule: loop_body_cases)
  case (raised e)
  from handle_transitions_fields [OF raised(1)] show ?thesis by simp
next
  case (went_on s3 out3 out4)
  from handle_transitions_fields [OF went_on(1)] grab_data_point_fields [OF went_on(2)]
  show ?thesis by simp
qed

lemma event_trace_nth:
  assumes "i < length (event_trace rnd ps s)"
  shows "event_trace rnd ps s ! i =
     (if i = 0
      then (b_cb_down s \<and> s_charge_begin (ps ! 0),
            b_cc_down s \<and> s_charge_complete (ps ! 0),
            b_ca_down s \<and> s_charge_abort (ps ! 0))
      else (\<not> s_charge_begin (ps ! (i - 1)) \<and> s_charge_begin (ps ! i),
            \<not> s_charge_complete (ps ! (i - 1)) \<and> s_charge_complete (ps ! i),
            \<not> s_charge_abort (ps ! (i - 1)) \<and> s_charge_abort (ps ! i)))"
  using assms
proof (induction ps arbitrary: s i)
  case Nil
  then show ?case by simp
next
  case (Cons p ps)
  show ?case
  proof (cases i)
    case 0
    then show ?thesis by (simp add: detect_events_def Let_def)
  next
    case (Suc j)
    obtain s1 out1 r1 where lb: "loop_body rnd p s = (s1, out1, r1)"
      by (cases "loop_body rnd p s") auto
    with Cons.prems Suc have r1: "r1 = None"
      by (cases r1) auto
    with Cons.prems Suc lb have j: "j < length (event_trace rnd ps s1)"
      by simp
    from loop_body_fields [OF lb] have f: "b_cb_down s1 = (\<not> s_charge_begin p) \<and>
        b_cc_down s1 = (\<not> s_charge_complete p) \<and> b_ca_down s1 = (\<not> s_charge_abort p)"
      by simp
    have "event_trace rnd (p # ps) s ! i = event_trace rnd ps s1 ! j"
      using Suc lb r1 by simp
    also have "\<dots> = (if j = 0
      then (b_cb_down s1 \<and> s_charge_begin (ps ! 0),
            b_cc_down s1 \<and> s_charge_complete (ps ! 0),
            b_ca_down s1 \<and> s_charge_abort (ps ! 0))
      else (\<not> s_charge_begin (ps ! (j - 1)) \<and> s_charge_begin (ps ! j),
            \<not> s_charge_complete (ps ! (j - 1)) \<and> s_charge_complete (ps ! j),
            \<not> s_charge_abort (ps ! (j - 1)) \<and> s_charge_abort (ps ! j)))"
      using Cons.IH [OF j] .
    finally show ?thesis
      using Suc f by (cases j) auto
  qed
qed

lemma event_trace_length:
  "snd (snd (run rnd ps s)) = None \<Longrightarrow> length (event_trace rnd ps s) = length ps"
proof (induction ps arbitrary: s)
  case Nil
  then show ?case by simp
next
  case (Cons p ps)
  obtain s1 out1 r1 where lb: "loop_body rnd p s = (s1, out1, r1)"
    by (cases "loop_body rnd p s") auto
  with Cons.prems have r1: "r1 = None" by (cases r1) auto
  with Cons.prems lb have "snd (snd (run rnd ps s1)) = None"
    by (auto split: prod.splits)
  then have "length (event_trace rnd ps s1) = length ps" by (rule Cons.IH)
  with lb r1 show ?case by simp
qed

lemma run_append:
  "run rnd (ps @ qs) s =
     (case run rnd ps s of
        (s1, out1, Some e) \<Rightarrow> (s1, out1, Some e)
      | (s1, out1, None) \<Rightarrow> (case run rnd qs s1 of (s2, out2, r) \<Rightarrow> (s2, out1 @ out2, r)))"
proof (induction ps arbitrary: s)
  case Nil
  then show ?case by (simp split: prod.splits)
next
  case (Cons p ps)
  then show ?case by (simp split: prod.splits option.splits)
qed

lemma idle_ticks:
  assumes "monitoring s" and "\<not> b_cb_down s" and "\<not> b_cc_down s" and "\<not> b_ca_down s"
    and "0 \<le> half_sec s" and "half_sec s + int n < 60"
  shows "run rnd (replicate n \<lparr>s_charge_begin = True, s_charge_complete = True,
                                s_charge_abort = True, voltage_sense = sense\<rparr>) s =
         (s\<lparr>half_sec := half_sec s + int n\<rparr>, [], None)"
  using assms
proof (induction n arbitrary: s)
  case 0
  then show ?case by simp
next
  case (Suc n)
  let ?up = "\<lparr>s_charge_begin = True, s_charge_complete = True,
               s_charge_abort = True, voltage_sense = sense\<rparr>"
  let ?s1 = "s\<lparr>half_sec := half_sec s + 1\<rparr>"
  have lb: "loop_body rnd ?up s = (?s1, [], None)"
    using Suc.prems
    by (simp add: loop_body_def detect_events_def count_half_sec_def grab_data_point_def Let_def)
  have "run rnd (replicate n ?up) ?s1 = (?s1\<lparr>half_sec := half_sec ?s1 + int n\<rparr>, [], None)"
    using Suc.prems by (intro Suc.IH) simp_all
  with lb show ?case by (simp add: add.assoc add.commute)
qed

subsection \<open>Intervals under rounding\<close>

lemma rnd_interval:
  assumes "float_rounding rnd" and "lo \<le> x" and "x \<le> hi" and "- m \<le> lo" and "hi \<le> m"
    and "lo' \<le> lo - m / 2 ^ 20" and "hi + m / 2 ^ 20 \<le> hi'"
  shows "lo' \<le> rnd x \<and> rnd x \<le> hi'"
proof -
  from assms(1) have "\<bar>rnd x - x\<bar> \<le> \<bar>x\<bar> / 2 ^ 20"
    unfolding float_rounding_def by blast
  moreover from assms(2-5) have "\<bar>x\<bar> \<le> m" by linarith
  then have "\<bar>x\<bar> / 2 ^ 20 \<le> m / 2 ^ 20" by (simp add: divide_right_mono)
  ultimately have "\<bar>rnd x - x\<bar> \<le> m / 2 ^ 20" by linarith
  with assms(2,3,6,7) show ?thesis by linarith
qed

lemma product_interval:
  fixes x y :: real
  assumes "0 \<le> l1" and "l1 \<le> x" and "x \<le> h1" and "0 \<le> l2" and "l2 \<le> y" and "y \<le> h2"
  shows "l1 * l2 \<le> x * y \<and> x * y \<le> h1 * h2"
proof -
  have "l1 * l2 \<le> x * y" using assms by (intro mult_mono) linarith+
  moreover have "x * y \<le> h1 * h2" using assms by (intro mult_mono) linarith+
  ultimately show ?thesis by blast
qed

lemma quotient_interval:
  fixes x y :: real
  assumes "0 \<le> l1" and "l1 \<le> x" and "x \<le> h1" and "0 < l2" and "l2 \<le> y" and "y \<le> h2"
  shows "l1 / h2 \<le> x / y \<and> x / y \<le> h1 / l2"
proof -
  have "l1 / h2 \<le> x / y" using assms by (intro frac_le) linarith+
  moreover have "x / y \<le> h1 / l2" using assms by (intro frac_le) linarith+
  ultimately show ?thesis by blast
qed

lemma estimate_capacity_locals:
  assumes "estimate_capacity rnd volts = (out, Inr l)"
  shows "v_sum l = py_sum rnd volts \<and>
         i_sum l = rnd (v_sum l / load_resistance) \<and>
         i_avg l = rnd (i_sum l / real (length volts)) \<and>
         energy_used l = rnd (rnd (i_sum l / samples_per_minute) / minutes_per_hour) \<and>
         v_monitor_start l = hd volts \<and>
         v_monitor_end l = last volts \<and>
         v_cutoff l = adjusted_cutoff rnd (i_avg l) \<and>
         ratio l = rnd (rnd (v_monitor_start l - v_cutoff l) /
                        rnd (v_monitor_start l - v_monitor_end l)) \<and>
         energy_total l = rnd (ratio l * energy_used l)"
  using assms
  by (auto simp add: estimate_capacity_def Let_def split: if_splits)

subsection \<open>The state transitions\<close>

text \<open>
  C1, as the script has it. In the block that handles state transitions, for every
  rounding within the relative error bound: when not monitoring, a charge-complete
  event that is not outranked by a charge-begin event empties \<open>voltage\<close> and sets
  \<open>monitoring\<close>; when monitoring, a charge-begin event over a list whose first and
  last samples differ prints exactly one complete capacity report, no error line,
  and clears \<open>monitoring\<close>; when monitoring, a charge-abort event alone prints no
  report and exactly one error line and clears \<open>monitoring\<close>.
\<close>

theorem transitions_lifecycle:
  assumes "float_rounding rnd"
  shows "(\<not> monitoring s \<longrightarrow>
            handle_transitions rnd (False, True, event_ca) s =
              (s\<lparr>voltage := [], monitoring := True\<rparr>, [BeginMonitoring], None)) \<and>
         (monitoring s \<and> voltage s \<noteq> [] \<and> hd (voltage s) \<noteq> last (voltage s) \<longrightarrow>
            (\<exists>out. handle_transitions rnd (True, event_cc, event_ca) s =
                     (s\<lparr>monitoring := False\<rparr>, out, None) \<and>
                   reports_printed out = 1 \<and> errors_printed out = 0)) \<and>
         (monitoring s \<longrightarrow>
            handle_transitions rnd (False, False, True) s =
              (s\<lparr>monitoring := False\<rparr>, [ErrorChargeAbort], None) \<and>
            reports_printed [ErrorChargeAbort] = 0 \<and>
            errors_printed [ErrorChargeAbort] = 1)"
proof (intro conjI impI)
  assume "\<not> monitoring s"
  then show "handle_transitions rnd (False, True, event_ca) s =
      (s\<lparr>voltage := [], monitoring := True\<rparr>, [BeginMonitoring], None)"
    by simp
next
  assume m: "monitoring s \<and> voltage s \<noteq> [] \<and> hd (voltage s) \<noteq> last (voltage s)"
  with assms obtain out l where e: "estimate_capacity rnd (voltage s) = (out, Inr l)"
    using estimate_capacity_sloped by blast
  then have "reports_printed out = 1 \<and> errors_printed out = 0"
    using estimate_capacity_returns by blast
  then have "reports_printed (EndMonitoring # out) = 1 \<and> errors_printed (EndMonitoring # out) = 0"
    by (simp add: reports_printed_def errors_printed_def)
  moreover from m e have "handle_transitions rnd (True, event_cc, event_ca) s =
      (s\<lparr>monitoring := False\<rparr>, EndMonitoring # out, None)"
    by simp
  ultimately show "\<exists>out. handle_transitions rnd (True, event_cc, event_ca) s =
                     (s\<lparr>monitoring := False\<rparr>, out, None) \<and>
                   reports_printed out = 1 \<and> errors_printed out = 0"
    by blast
next
  assume "monitoring s"
  then show "handle_transitions rnd (False, False, True) s =
              (s\<lparr>monitoring := False\<rparr>, [ErrorChargeAbort], None)"
    by simp
next
  show "reports_printed [ErrorChargeAbort] = 0" by (simp add: reports_printed_def)
next
  show "errors_printed [ErrorChargeAbort] = 1" by (simp add: errors_printed_def)
qed

theorem transitions_lifecycle_witness:
  "float_rounding (\<lambda>x. x) \<and>
   \<not> monitoring init \<and>
   handle_transitions (\<lambda>x. x) (False, True, False) init =
     (init\<lparr>voltage := [], monitoring := True\<rparr>, [BeginMonitoring], None) \<and>
   monitoring (init\<lparr>monitoring := True, voltage := [33 / 10, 3]\<rparr>) \<and>
   hd (voltage (init\<lparr>monitoring := True, voltage := [33 / 10, 3]\<rparr>)) \<noteq>
     last (voltage (init\<lparr>monitoring := True, voltage := [33 / 10, 3]\<rparr>)) \<and>
   (\<exists>out. handle_transitions (\<lambda>x. x) (True, False, False)
            (init\<lparr>monitoring := True, voltage := [33 / 10, 3]\<rparr>) =
            (init\<lparr>monitoring := True, voltage := [33 / 10, 3]\<rparr>\<lparr>monitoring := False\<rparr>, out, None) \<and>
          reports_printed out = 1 \<and> errors_printed out = 0) \<and>
   handle_transitions (\<lambda>x. x) (False, False, True)
     (init\<lparr>monitoring := True, voltage := [33 / 10, 3]\<rparr>) =
     (init\<lparr>monitoring := True, voltage := [33 / 10, 3]\<rparr>\<lparr>monitoring := False\<rparr>,
      [ErrorChargeAbort], None)"
proof -
  have r: "float_rounding (\<lambda>x. x)" by (rule float_rounding_exact)
  have i: "\<not> monitoring init" by (simp add: init_def)
  have m: "monitoring (init\<lparr>monitoring := True, voltage := [33 / 10, 3]\<rparr>) \<and>
           voltage (init\<lparr>monitoring := True, voltage := [33 / 10, 3]\<rparr>) \<noteq> [] \<and>
           hd (voltage (init\<lparr>monitoring := True, voltage := [33 / 10, 3]\<rparr>)) \<noteq>
             last (voltage (init\<lparr>monitoring := True, voltage := [33 / 10, 3]\<rparr>))"
    by simp
  from transitions_lifecycle [OF r, where s = init and event_ca = False] i
    transitions_lifecycle [OF r, where s = "init\<lparr>monitoring := True, voltage := [33 / 10, 3]\<rparr>"
      and event_cc = False and event_ca = False] m r
  show ?thesis by blast
qed

text \<open>
  Where C1 as written fails: a charge-begin event while monitoring with the
  non-empty list \<open>[3.0]\<close>. The estimator prints six lines and raises
  \<open>ZeroDivisionError\<close>; no report is completed and \<open>monitoring\<close> stays set.
\<close>

theorem begin_with_one_sample_raises:
  "handle_transitions (\<lambda>x. x) (True, False, False) (init\<lparr>monitoring := True, voltage := [3]\<rparr>) =
     (init\<lparr>monitoring := True, voltage := [3]\<rparr>,
      [EndMonitoring, CapacityEstimateAfter (1 / 2), AverageCurrent 200, CapacityUsed (5 / 3),
       VoltageMonitorStart 3, VoltageMonitorEnd 3, AdjustedVoltageCutoff (8083 / 2500)],
      Some ZeroDivisionError)"
  by (simp add: init_def estimate_capacity_def py_sum_def adjusted_cutoff_def Let_def
      script_constants)

subsection \<open>Division by zero in the estimator\<close>

text \<open>
  What the script does with a non-empty list whose first sample equals its last,
  for every rounding within the bound: \<open>estimate_capacity\<close> prints its first six
  lines and raises \<open>ZeroDivisionError\<close> at the division that computes \<open>ratio\<close>,
  and the transition block passes the exception on with the variables as they were.
\<close>

theorem flat_series_raises:
  assumes "float_rounding rnd" and "voltage s \<noteq> []" and "hd (voltage s) = last (voltage s)"
  shows "\<exists>out. estimate_capacity rnd (voltage s) = (out, Inl ZeroDivisionError) \<and>
               length out = 6 \<and> reports_printed out = 0 \<and>
               (monitoring s \<longrightarrow>
                  handle_transitions rnd (True, event_cc, event_ca) s =
                    (s, EndMonitoring # out, Some ZeroDivisionError))"
proof -
  from assms obtain out where
    e: "estimate_capacity rnd (voltage s) = (out, Inl ZeroDivisionError)"
    and l: "length out = 6 \<and> reports_printed out = 0"
    using estimate_capacity_flat by blast
  from e have "monitoring s \<longrightarrow>
      handle_transitions rnd (True, event_cc, event_ca) s =
        (s, EndMonitoring # out, Some ZeroDivisionError)"
    by simp
  with e l show ?thesis by blast
qed

theorem flat_series_raises_witness:
  "float_rounding (\<lambda>x. x) \<and>
   voltage (init\<lparr>monitoring := True, voltage := [3, 3]\<rparr>) \<noteq> [] \<and>
   hd (voltage (init\<lparr>monitoring := True, voltage := [3, 3]\<rparr>)) =
     last (voltage (init\<lparr>monitoring := True, voltage := [3, 3]\<rparr>)) \<and>
   (\<exists>out. estimate_capacity (\<lambda>x. x) [3, 3] = (out, Inl ZeroDivisionError) \<and>
          length out = 6 \<and> reports_printed out = 0 \<and>
          handle_transitions (\<lambda>x. x) (True, False, False)
            (init\<lparr>monitoring := True, voltage := [3, 3]\<rparr>) =
            (init\<lparr>monitoring := True, voltage := [3, 3]\<rparr>, EndMonitoring # out,
             Some ZeroDivisionError))"
proof -
  have r: "float_rounding (\<lambda>x. x)" by (rule float_rounding_exact)
  have n: "voltage (init\<lparr>monitoring := True, voltage := [3, 3]\<rparr>) \<noteq> []" by simp
  have f: "hd (voltage (init\<lparr>monitoring := True, voltage := [3, 3]\<rparr>)) =
           last (voltage (init\<lparr>monitoring := True, voltage := [3, 3]\<rparr>))" by simp
  from flat_series_raises [OF r n f, where event_cc = False and event_ca = False] r n f
  show ?thesis by simp
qed

text \<open>
  C3 asks that a series whose first sample equals its last, such as \<open>[3.0, 3.0]\<close>,
  is reported as an indeterminate cutoff ratio without a division fault, and that
  the transition to Idle still occurs. The script misses it. The charge-begin branch
  prints its line, calls \<open>estimate_capacity\<close> and then clears \<open>monitoring\<close>, as the
  two branches beside it do; but the division by \<open>v_monitor_start - v_monitor_end\<close>
  is unguarded, so at \<open>[3.0, 3.0]\<close> the estimator raises \<open>ZeroDivisionError\<close> after
  six lines, \<open>monitoring\<close> is never cleared and the loop ends.
\<close>

theorem flat_series_example:
  "estimate_capacity (\<lambda>x. x) [3, 3] =
     ([CapacityEstimateAfter 1, AverageCurrent 200, CapacityUsed (10 / 3),
       VoltageMonitorStart 3, VoltageMonitorEnd 3, AdjustedVoltageCutoff (8083 / 2500)],
      Inl ZeroDivisionError) \<and>
   handle_transitions (\<lambda>x. x) (True, False, False) (init\<lparr>monitoring := True, voltage := [3, 3]\<rparr>) =
     (init\<lparr>monitoring := True, voltage := [3, 3]\<rparr>,
      [EndMonitoring, CapacityEstimateAfter 1, AverageCurrent 200, CapacityUsed (10 / 3),
       VoltageMonitorStart 3, VoltageMonitorEnd 3, AdjustedVoltageCutoff (8083 / 2500)],
      Some ZeroDivisionError)"
  by (simp add: init_def estimate_capacity_def py_sum_def adjusted_cutoff_def Let_def
      script_constants)

text \<open>
  The same from the initial variables, in exact arithmetic: the charge-complete
  button is pressed and released, the 60th and the 120th iteration each take a sample
  with the same reading of 40000, and the charge-begin button is pressed and released
  in the two iterations after that. The loop ends in the 122nd iteration.
\<close>

lemma two_equal_samples_cycle:
  "run (\<lambda>x. x)
     ([\<lparr>s_charge_begin = True, s_charge_complete = False, s_charge_abort = True,
        voltage_sense = Some 40000\<rparr>,
       \<lparr>s_charge_begin = True, s_charge_complete = True, s_charge_abort = True,
        voltage_sense = Some 40000\<rparr>] @
      replicate 57 \<lparr>s_charge_begin = True, s_charge_complete = True, s_charge_abort = True,
                     voltage_sense = Some 40000\<rparr> @
      [\<lparr>s_charge_begin = True, s_charge_complete = True, s_charge_abort = True,
        voltage_sense = Some 40000\<rparr>] @
      replicate 59 \<lparr>s_charge_begin = True, s_charge_complete = True, s_charge_abort = True,
                     voltage_sense = Some 40000\<rparr> @
      [\<lparr>s_charge_begin = True, s_charge_complete = True, s_charge_abort = True,
        voltage_sense = Some 40000\<rparr>,
       \<lparr>s_charge_begin = False, s_charge_complete = True, s_charge_abort = True,
        voltage_sense = Some 40000\<rparr>,
       \<lparr>s_charge_begin = True, s_charge_complete = True, s_charge_abort = True,
        voltage_sense = Some 40000\<rparr>])
     init =
   (init\<lparr>monitoring := True, voltage := [171875 / 58368, 171875 / 58368], half_sec := 2\<rparr>,
    [BeginMonitoring, SampleTaken (1 / 2) (171875 / 58368), SampleTaken 1 (171875 / 58368),
     EndMonitoring, CapacityEstimateAfter 1, AverageCurrent (4296875 / 21888),
     CapacityUsed (859375 / 262656), VoltageMonitorStart (171875 / 58368),
     VoltageMonitorEnd (171875 / 58368), AdjustedVoltageCutoff (566436217 / 175104000)],
    Some ZeroDivisionError)"
proof -
  let ?up = "\<lparr>s_charge_begin = True, s_charge_complete = True, s_charge_abort = True,
               voltage_sense = Some 40000\<rparr>"
  let ?cc = "\<lparr>s_charge_begin = True, s_charge_complete = False, s_charge_abort = True,
               voltage_sense = Some 40000\<rparr>"
  let ?cb = "\<lparr>s_charge_begin = False, s_charge_complete = True, s_charge_abort = True,
               voltage_sense = Some 40000\<rparr>"
  let ?s2 = "init\<lparr>monitoring := True, half_sec := 2\<rparr>"
  let ?s59 = "init\<lparr>monitoring := True, half_sec := 59\<rparr>"
  let ?t0 = "init\<lparr>monitoring := True, voltage := [171875 / 58368], half_sec := 0\<rparr>"
  let ?t59 = "init\<lparr>monitoring := True, voltage := [171875 / 58368], half_sec := 59\<rparr>"
  have first: "run (\<lambda>x. x) [?cc, ?up] init = (?s2, [BeginMonitoring], None)"
    by (simp add: init_def loop_body_def detect_events_def count_half_sec_def
        grab_data_point_def Let_def)
  have "run (\<lambda>x. x) (replicate 57 ?up) ?s2 = (?s2\<lparr>half_sec := half_sec ?s2 + int 57\<rparr>, [], None)"
    by (rule idle_ticks) (simp_all add: init_def)
  then have wait1: "run (\<lambda>x. x) (replicate 57 ?up) ?s2 = (?s59, [], None)"
    by (simp add: init_def)
  have sample1: "run (\<lambda>x. x) [?up] ?s59 = (?t0, [SampleTaken (1 / 2) (171875 / 58368)], None)"
    by (simp add: init_def loop_body_def detect_events_def count_half_sec_def
        grab_data_point_def get_volts_def samples_per_minute_def Let_def)
  have "run (\<lambda>x. x) (replicate 59 ?up) ?t0 = (?t0\<lparr>half_sec := half_sec ?t0 + int 59\<rparr>, [], None)"
    by (rule idle_ticks) (simp_all add: init_def)
  then have wait2: "run (\<lambda>x. x) (replicate 59 ?up) ?t0 = (?t59, [], None)"
    by (simp add: init_def)
  have last: "run (\<lambda>x. x) [?up, ?cb, ?up] ?t59 =
    (init\<lparr>monitoring := True, voltage := [171875 / 58368, 171875 / 58368], half_sec := 2\<rparr>,
     [SampleTaken 1 (171875 / 58368), EndMonitoring, CapacityEstimateAfter 1,
      AverageCurrent (4296875 / 21888), CapacityUsed (859375 / 262656),
      VoltageMonitorStart (171875 / 58368), VoltageMonitorEnd (171875 / 58368),
      AdjustedVoltageCutoff (566436217 / 175104000)],
     Some ZeroDivisionError)"
    by (simp add: init_def loop_body_def detect_events_def count_half_sec_def
        grab_data_point_def get_volts_def estimate_capacity_def py_sum_def adjusted_cutoff_def
        script_constants Let_def)
  have r4: "run (\<lambda>x. x) (replicate 59 ?up @ [?up, ?cb, ?up]) ?t0 =
    (init\<lparr>monitoring := True, voltage := [171875 / 58368, 171875 / 58368], half_sec := 2\<rparr>,
     [SampleTaken 1 (171875 / 58368), EndMonitoring, CapacityEstimateAfter 1,
      AverageCurrent (4296875 / 21888), CapacityUsed (859375 / 262656),
      VoltageMonitorStart (171875 / 58368), VoltageMonitorEnd (171875 / 58368),
      AdjustedVoltageCutoff (566436217 / 175104000)],
     Some ZeroDivisionError)"
    by (simp only: run_append [where ps = "replicate 59 ?up"] wait2 last
        prod.case option.case append_Nil)
  have r3: "run (\<lambda>x. x) ([?up] @ replicate 59 ?up @ [?up, ?cb, ?up]) ?s59 =
    (init\<lparr>monitoring := True, voltage := [171875 / 58368, 171875 / 58368], half_sec := 2\<rparr>,
     [SampleTaken (1 / 2) (171875 / 58368), SampleTaken 1 (171875 / 58368), EndMonitoring,
      CapacityEstimateAfter 1, AverageCurrent (4296875 / 21888), CapacityUsed (859375 / 262656),
      VoltageMonitorStart (171875 / 58368), VoltageMonitorEnd (171875 / 58368),
      AdjustedVoltageCutoff (566436217 / 175104000)],
     Some ZeroDivisionError)"
    by (subst run_append) (simp only: sample1 r4 prod.case option.case append.simps)
  have r2: "run (\<lambda>x. x) (replicate 57 ?up @ [?up] @ replicate 59 ?up @ [?up, ?cb, ?up]) ?s2 =
    (init\<lparr>monitoring := True, voltage := [171875 / 58368, 171875 / 58368], half_sec := 2\<rparr>,
     [SampleTaken (1 / 2) (171875 / 58368), SampleTaken 1 (171875 / 58368), EndMonitoring,
      CapacityEstimateAfter 1, AverageCurrent (4296875 / 21888), CapacityUsed (859375 / 262656),
      VoltageMonitorStart (171875 / 58368), VoltageMonitorEnd (171875 / 58368),
      AdjustedVoltageCutoff (566436217 / 175104000)],
     Some ZeroDivisionError)"
    by (subst run_append) (simp only: wait1 r3 prod.case option.case append_Nil)
  note r1 = r2 [simplified append.simps]
  show ?thesis
    by (subst run_append) (simp only: first r1 prod.case option.case append.simps)
qed

text \<open>
  What the script does with a charge-begin event while monitoring with an empty
  list: \<open>estimate_capacity\<close> is called all the same, prints its header line for zero
  minutes and raises \<open>ZeroDivisionError\<close> at \<open>i_sum / samples\<close>. And an iteration of
  the loop that prints a complete capacity report started while monitoring with a
  non-empty list.
\<close>

theorem empty_series_raises:
  "(monitoring s \<and> voltage s = [] \<longrightarrow>
      handle_transitions rnd (True, event_cc, event_ca) s =
        (s, [EndMonitoring, CapacityEstimateAfter (rnd 0)], Some ZeroDivisionError)) \<and>
   (loop_body rnd p s = (s', out, r) \<and> 0 < reports_printed out \<longrightarrow>
      monitoring s \<and> voltage s \<noteq> [])"
proof -
  have first: "monitoring s \<and> voltage s = [] \<longrightarrow>
      handle_transitions rnd (True, event_cc, event_ca) s =
        (s, [EndMonitoring, CapacityEstimateAfter (rnd 0)], Some ZeroDivisionError)"
    by (simp add: estimate_capacity_empty)
  have second: "monitoring s \<and> voltage s \<noteq> []"
    if lb: "loop_body rnd p s = (s', out, r)" and rp: "0 < reports_printed out"
    using lb
  proof (cases rule: loop_body_cases)
    case (raised e)
    with rp show ?thesis using handle_transitions_report by fastforce
  next
    case (went_on s3 out3 out4)
    from went_on(2) have "reports_printed out4 = 0" using grab_data_point_fields by blast
    with rp went_on(3) have "0 < reports_printed out3" by (simp add: reports_printed_def)
    with went_on(1) show ?thesis using handle_transitions_report by fastforce
  qed
  from first second show ?thesis by blast
qed

theorem empty_series_raises_witness:
  "monitoring (init\<lparr>monitoring := True\<rparr>) \<and> voltage (init\<lparr>monitoring := True\<rparr>) = [] \<and>
   handle_transitions (\<lambda>x. x) (True, False, False) (init\<lparr>monitoring := True\<rparr>) =
     (init\<lparr>monitoring := True\<rparr>, [EndMonitoring, CapacityEstimateAfter 0],
      Some ZeroDivisionError)"
proof -
  have m: "monitoring (init\<lparr>monitoring := True\<rparr>) \<and> voltage (init\<lparr>monitoring := True\<rparr>) = []"
    by (simp add: init_def)
  from empty_series_raises [where s = "init\<lparr>monitoring := True\<rparr>" and rnd = "\<lambda>x. x"
      and event_cc = False and event_ca = False] m
  show ?thesis by simp
qed

text \<open>
  C4 asks that a charge-begin event while monitoring with no sample skips the
  estimation, emits a notice and moves to Idle. The script misses it: the
  charge-begin branch calls \<open>estimate_capacity\<close> before it clears \<open>monitoring\<close>, and
  the unguarded division \<open>i_sum / samples\<close> raises \<open>ZeroDivisionError\<close> after the
  header line, so \<open>monitoring\<close> is never cleared and the loop ends.
\<close>

theorem empty_series_example:
  "handle_transitions (\<lambda>x. x) (True, False, False) (init\<lparr>monitoring := True\<rparr>) =
     (init\<lparr>monitoring := True\<rparr>, [EndMonitoring, CapacityEstimateAfter 0],
      Some ZeroDivisionError)"
  by (simp add: init_def estimate_capacity_empty)

text \<open>
  The same from the initial variables, in four iterations: the charge-complete button
  is pressed and released, then the charge-begin button is pressed and released.
\<close>

lemma empty_series_from_init:
  "run (\<lambda>x. x)
     [\<lparr>s_charge_begin = True, s_charge_complete = False, s_charge_abort = True,
       voltage_sense = Some 40000\<rparr>,
      \<lparr>s_charge_begin = True, s_charge_complete = True, s_charge_abort = True,
       voltage_sense = Some 40000\<rparr>,
      \<lparr>s_charge_begin = False, s_charge_complete = True, s_charge_abort = True,
       voltage_sense = Some 40000\<rparr>,
      \<lparr>s_charge_begin = True, s_charge_complete = True, s_charge_abort = True,
       voltage_sense = Some 40000\<rparr>]
     init =
   (init\<lparr>monitoring := True, half_sec := 4\<rparr>,
    [BeginMonitoring, EndMonitoring, CapacityEstimateAfter 0], Some ZeroDivisionError)"
  by (simp add: init_def loop_body_def detect_events_def count_half_sec_def
      grab_data_point_def estimate_capacity_empty Let_def)

text \<open>
  C10. For a list of exactly one sample, whatever its value, the first and the last
  sample are the same element, so the divisor \<open>v_monitor_start - v_monitor_end\<close> is
  zero. \<open>estimate_capacity\<close> gets past \<open>i_sum / samples\<close>, prints its first six
  lines, with the same voltage as start and as end, and raises
  \<open>ZeroDivisionError\<close> at the division that computes \<open>ratio\<close>; a charge-begin event
  that ends a monitoring cycle with one sample raises it too, after these lines.
\<close>

theorem one_sample_raises:
  assumes "float_rounding rnd"
  shows "rnd (hd [v] - last [v]) = 0 \<and>
         snd (estimate_capacity rnd [v]) = Inl ZeroDivisionError \<and>
         estimate_capacity rnd [v] =
           (let i_sum = rnd (py_sum rnd [v] / load_resistance);
                i_avg = rnd (i_sum / 1);
                energy_used = rnd (rnd (i_sum / samples_per_minute) / minutes_per_hour)
            in ([CapacityEstimateAfter (rnd (1 / samples_per_minute)),
                 AverageCurrent (rnd (i_avg * milliamps_per_amp)),
                 CapacityUsed (rnd (energy_used * milliamps_per_amp)),
                 VoltageMonitorStart v,
                 VoltageMonitorEnd v,
                 AdjustedVoltageCutoff (adjusted_cutoff rnd i_avg)],
                Inl ZeroDivisionError)) \<and>
         (monitoring s \<and> voltage s = [v] \<longrightarrow>
            handle_transitions rnd (True, event_cc, event_ca) s =
              (s, EndMonitoring # fst (estimate_capacity rnd [v]), Some ZeroDivisionError) \<and>
            length (fst (estimate_capacity rnd [v])) = 6 \<and>
            reports_printed (fst (estimate_capacity rnd [v])) = 0)"
proof -
  have d: "rnd (hd [v] - last [v]) = 0" using assms by (simp add: rnd_zero)
  have full: "estimate_capacity rnd [v] =
           (let i_sum = rnd (py_sum rnd [v] / load_resistance);
                i_avg = rnd (i_sum / 1);
                energy_used = rnd (rnd (i_sum / samples_per_minute) / minutes_per_hour)
            in ([CapacityEstimateAfter (rnd (1 / samples_per_minute)),
                 AverageCurrent (rnd (i_avg * milliamps_per_amp)),
                 CapacityUsed (rnd (energy_used * milliamps_per_amp)),
                 VoltageMonitorStart v,
                 VoltageMonitorEnd v,
                 AdjustedVoltageCutoff (adjusted_cutoff rnd i_avg)],
                Inl ZeroDivisionError))"
    using assms by (simp add: estimate_capacity_def Let_def rnd_zero)
  then have e: "snd (estimate_capacity rnd [v]) = Inl ZeroDivisionError"
    by (simp add: Let_def)
  from full have six: "length (fst (estimate_capacity rnd [v])) = 6 \<and>
      reports_printed (fst (estimate_capacity rnd [v])) = 0"
    by (simp add: Let_def reports_printed_def)
  from e have "monitoring s \<and> voltage s = [v] \<longrightarrow>
      handle_transitions rnd (True, event_cc, event_ca) s =
        (s, EndMonitoring # fst (estimate_capacity rnd [v]), Some ZeroDivisionError)"
    by (cases "estimate_capacity rnd [v]") auto
  with d e full six show ?thesis by blast
qed

theorem one_sample_raises_witness:
  "float_rounding (\<lambda>x. x) \<and>
   estimate_capacity (\<lambda>x. x) [37 / 10] =
     ([CapacityEstimateAfter (1 / 2), AverageCurrent (740 / 3), CapacityUsed (37 / 18),
       VoltageMonitorStart (37 / 10), VoltageMonitorEnd (37 / 10),
       AdjustedVoltageCutoff (481837 / 150000)],
      Inl ZeroDivisionError) \<and>
   monitoring (init\<lparr>monitoring := True, voltage := [37 / 10]\<rparr>) \<and>
   handle_transitions (\<lambda>x. x) (True, False, False)
     (init\<lparr>monitoring := True, voltage := [37 / 10]\<rparr>) =
     (init\<lparr>monitoring := True, voltage := [37 / 10]\<rparr>,
      [EndMonitoring, CapacityEstimateAfter (1 / 2), AverageCurrent (740 / 3),
       CapacityUsed (37 / 18), VoltageMonitorStart (37 / 10), VoltageMonitorEnd (37 / 10),
       AdjustedVoltageCutoff (481837 / 150000)],
      Some ZeroDivisionError)"
proof -
  have r: "float_rounding (\<lambda>x. x)" by (rule float_rounding_exact)
  have m: "monitoring (init\<lparr>monitoring := True, voltage := [37 / 10]\<rparr>) \<and>
           voltage (init\<lparr>monitoring := True, voltage := [37 / 10]\<rparr>) = [37 / 10]"
    by simp
  note t = one_sample_raises [OF r, where v = "37 / 10"
      and s = "init\<lparr>monitoring := True, voltage := [37 / 10]\<rparr>"
      and event_cc = False and event_ca = False]
  from t have e: "estimate_capacity (\<lambda>x. x) [37 / 10] =
     ([CapacityEstimateAfter (1 / 2), AverageCurrent (740 / 3), CapacityUsed (37 / 18),
       VoltageMonitorStart (37 / 10), VoltageMonitorEnd (37 / 10),
       AdjustedVoltageCutoff (481837 / 150000)],
      Inl ZeroDivisionError)"
    by (simp add: Let_def py_sum_def adjusted_cutoff_def script_constants)
  from t m have "handle_transitions (\<lambda>x. x) (True, False, False)
     (init\<lparr>monitoring := True, voltage := [37 / 10]\<rparr>) =
     (init\<lparr>monitoring := True, voltage := [37 / 10]\<rparr>,
      EndMonitoring # fst (estimate_capacity (\<lambda>x. x) [37 / 10]), Some ZeroDivisionError)"
    by blast
  with e r m show ?thesis by simp
qed

text \<open>
  Such a cycle from the initial variables, in exact arithmetic: the charge-complete
  button is pressed and released, the sixtieth iteration takes the one sample (a
  reading of 40000), and the charge-begin button is pressed and released in the two
  iterations after it. The loop ends in the 62nd iteration with
  \<open>ZeroDivisionError\<close>, still monitoring, the report unfinished.
\<close>

lemma one_sample_cycle:
  "run (\<lambda>x. x)
     ([\<lparr>s_charge_begin = True, s_charge_complete = False, s_charge_abort = True,
        voltage_sense = Some 40000\<rparr>,
       \<lparr>s_charge_begin = True, s_charge_complete = True, s_charge_abort = True,
        voltage_sense = Some 40000\<rparr>] @
      replicate 57 \<lparr>s_charge_begin = True, s_charge_complete = True, s_charge_abort = True,
                     voltage_sense = Some 40000\<rparr> @
      [\<lparr>s_charge_begin = True, s_charge_complete = True, s_charge_abort = True,
        voltage_sense = Some 40000\<rparr>,
       \<lparr>s_charge_begin = False, s_charge_complete = True, s_charge_abort = True,
        voltage_sense = Some 40000\<rparr>,
       \<lparr>s_charge_begin = True, s_charge_complete = True, s_charge_abort = True,
        voltage_sense = Some 40000\<rparr>])
     init =
   (init\<lparr>monitoring := True, voltage := [171875 / 58368], half_sec := 2\<rparr>,
    [BeginMonitoring, SampleTaken (1 / 2) (171875 / 58368), EndMonitoring,
     CapacityEstimateAfter (1 / 2), AverageCurrent (4296875 / 21888),
     CapacityUsed (859375 / 525312), VoltageMonitorStart (171875 / 58368),
     VoltageMonitorEnd (171875 / 58368), AdjustedVoltageCutoff (566436217 / 175104000)],
    Some ZeroDivisionError)"
proof -
  let ?up = "\<lparr>s_charge_begin = True, s_charge_complete = True, s_charge_abort = True,
               voltage_sense = Some 40000\<rparr>"
  let ?cc = "\<lparr>s_charge_begin = True, s_charge_complete = False, s_charge_abort = True,
               voltage_sense = Some 40000\<rparr>"
  let ?cb = "\<lparr>s_charge_begin = False, s_charge_complete = True, s_charge_abort = True,
               voltage_sense = Some 40000\<rparr>"
  let ?s2 = "init\<lparr>monitoring := True, half_sec := 2\<rparr>"
  let ?s59 = "init\<lparr>monitoring := True, half_sec := 59\<rparr>"
  have first: "run (\<lambda>x. x) [?cc, ?up] init = (?s2, [BeginMonitoring], None)"
    by (simp add: init_def loop_body_def detect_events_def count_half_sec_def
        grab_data_point_def Let_def)
  have "run (\<lambda>x. x) (replicate 57 ?up) ?s2 = (?s2\<lparr>half_sec := half_sec ?s2 + int 57\<rparr>, [], None)"
    by (rule idle_ticks) (simp_all add: init_def)
  then have middle: "run (\<lambda>x. x) (replicate 57 ?up) ?s2 = (?s59, [], None)"
    by (simp add: init_def)
  have last: "run (\<lambda>x. x) [?up, ?cb, ?up] ?s59 =
    (init\<lparr>monitoring := True, voltage := [171875 / 58368], half_sec := 2\<rparr>,
     [SampleTaken (1 / 2) (171875 / 58368), EndMonitoring,
      CapacityEstimateAfter (1 / 2), AverageCurrent (4296875 / 21888),
      CapacityUsed (859375 / 525312), VoltageMonitorStart (171875 / 58368),
      VoltageMonitorEnd (171875 / 58368), AdjustedVoltageCutoff (566436217 / 175104000)],
     Some ZeroDivisionError)"
    by (simp add: init_def loop_body_def detect_events_def count_half_sec_def
        grab_data_point_def get_volts_def estimate_capacity_def py_sum_def adjusted_cutoff_def
        script_constants Let_def)
  have rest: "run (\<lambda>x. x) (replicate 57 ?up @ [?up, ?cb, ?up]) ?s2 =
    (init\<lparr>monitoring := True, voltage := [171875 / 58368], half_sec := 2\<rparr>,
     [SampleTaken (1 / 2) (171875 / 58368), EndMonitoring,
      CapacityEstimateAfter (1 / 2), AverageCurrent (4296875 / 21888),
      CapacityUsed (859375 / 525312), VoltageMonitorStart (171875 / 58368),
      VoltageMonitorEnd (171875 / 58368), AdjustedVoltageCutoff (566436217 / 175104000)],
     Some ZeroDivisionError)"
    by (simp only: run_append [where ps = "replicate 57 ?up"] middle last
        prod.case option.case append_Nil)
  show ?thesis
    by (subst run_append) (simp only: first rest prod.case option.case append.simps)
qed

subsection \<open>Which event counts\<close>

text \<open>
  C6. In every iteration the transition block honours exactly one event, the one
  that the priority Begin, Complete, Abort chooses among those that fired, and does
  for it what it does for that event alone; the others are ignored. Begin together
  with Complete counts as Begin: while monitoring, the estimate is made. Complete
  together with Abort counts as Complete: while monitoring, the charge-complete error
  is printed, and while not monitoring, monitoring begins. With no event nothing
  changes and nothing is printed.
\<close>

theorem priority_of_events:
  "handle_transitions rnd (event_cb, event_cc, event_ca) s =
     (case spec_arbiter event_cb event_cc event_ca of
        NoEvent \<Rightarrow> (s, [], None)
      | Begin \<Rightarrow>
          (if monitoring s
           then (case estimate_capacity rnd (voltage s) of
                   (out, Inl e) \<Rightarrow> (s, EndMonitoring # out, Some e)
                 | (out, Inr l) \<Rightarrow> (s\<lparr>monitoring := False\<rparr>, EndMonitoring # out, None))
           else (s, [], None))
      | Complete \<Rightarrow>
          (if monitoring s
           then (s\<lparr>monitoring := False\<rparr>, [ErrorChargeComplete], None)
           else (s\<lparr>voltage := [], monitoring := True\<rparr>, [BeginMonitoring], None))
      | Abort \<Rightarrow>
          (if monitoring s
           then (s\<lparr>monitoring := False\<rparr>, [ErrorChargeAbort], None)
           else (s, [], None))) \<and>
   handle_transitions rnd (event_cb, event_cc, event_ca) s =
     handle_transitions rnd (only_event (spec_arbiter event_cb event_cc event_ca)) s \<and>
   spec_arbiter True True event_ca = Begin \<and>
   handle_transitions rnd (True, True, event_ca) s = handle_transitions rnd (True, False, False) s \<and>
   spec_arbiter False True True = Complete \<and>
   handle_transitions rnd (False, True, True) s = handle_transitions rnd (False, True, False) s \<and>
   spec_arbiter False False False = NoEvent \<and>
   handle_transitions rnd (False, False, False) s = (s, [], None) \<and>
   fst (snd (handle_transitions rnd (True, True, True) (init\<lparr>monitoring := True\<rparr>))) =
     [EndMonitoring, CapacityEstimateAfter (rnd 0)] \<and>
   handle_transitions rnd (False, True, True) (init\<lparr>monitoring := True\<rparr>) =
     (init, [ErrorChargeComplete], None) \<and>
   handle_transitions rnd (False, False, True) (init\<lparr>monitoring := True\<rparr>) =
     (init, [ErrorChargeAbort], None) \<and>
   handle_transitions rnd (False, True, True) init =
     (init\<lparr>monitoring := True\<rparr>, [BeginMonitoring], None)"
proof -
  have chain: "handle_transitions rnd (event_cb, event_cc, event_ca) s =
     (case spec_arbiter event_cb event_cc event_ca of
        NoEvent \<Rightarrow> (s, [], None)
      | Begin \<Rightarrow>
          (if monitoring s
           then (case estimate_capacity rnd (voltage s) of
                   (out, Inl e) \<Rightarrow> (s, EndMonitoring # out, Some e)
                 | (out, Inr l) \<Rightarrow> (s\<lparr>monitoring := False\<rparr>, EndMonitoring # out, None))
           else (s, [], None))
      | Complete \<Rightarrow>
          (if monitoring s
           then (s\<lparr>monitoring := False\<rparr>, [ErrorChargeComplete], None)
           else (s\<lparr>voltage := [], monitoring := True\<rparr>, [BeginMonitoring], None))
      | Abort \<Rightarrow>
          (if monitoring s
           then (s\<lparr>monitoring := False\<rparr>, [ErrorChargeAbort], None)
           else (s, [], None)))"
    by (simp add: spec_arbiter_def)
  have alone: "handle_transitions rnd (event_cb, event_cc, event_ca) s =
     handle_transitions rnd (only_event (spec_arbiter event_cb event_cc event_ca)) s"
    by (simp add: spec_arbiter_def)
  have arbiter: "spec_arbiter True True event_ca = Begin" "spec_arbiter False True True = Complete"
    "spec_arbiter False False False = NoEvent"
    by (simp_all add: spec_arbiter_def)
  have pairs: "handle_transitions rnd (True, True, event_ca) s =
      handle_transitions rnd (True, False, False) s"
    "handle_transitions rnd (False, True, True) s = handle_transitions rnd (False, True, False) s"
    "handle_transitions rnd (False, False, False) s = (s, [], None)"
    by simp_all
  have acted: "fst (snd (handle_transitions rnd (True, True, True) (init\<lparr>monitoring := True\<rparr>))) =
      [EndMonitoring, CapacityEstimateAfter (rnd 0)]"
    "handle_transitions rnd (False, True, True) (init\<lparr>monitoring := True\<rparr>) =
      (init, [ErrorChargeComplete], None)"
    "handle_transitions rnd (False, False, True) (init\<lparr>monitoring := True\<rparr>) =
      (init, [ErrorChargeAbort], None)"
    "handle_transitions rnd (False, True, True) init =
      (init\<lparr>monitoring := True\<rparr>, [BeginMonitoring], None)"
    by (simp_all add: init_def estimate_capacity_empty)
  from chain alone arbiter pairs acted show ?thesis by blast
qed

text \<open>
  The three events are told apart: while monitoring each of them alone prints a
  different line, and while not monitoring only the charge-complete event changes
  anything.
\<close>

lemma single_events_differ:
  "fst (snd (handle_transitions rnd (only_event Begin) (init\<lparr>monitoring := True\<rparr>))) =
     [EndMonitoring, CapacityEstimateAfter (rnd 0)] \<and>
   fst (snd (handle_transitions rnd (only_event Complete) (init\<lparr>monitoring := True\<rparr>))) =
     [ErrorChargeComplete] \<and>
   fst (snd (handle_transitions rnd (only_event Abort) (init\<lparr>monitoring := True\<rparr>))) =
     [ErrorChargeAbort] \<and>
   handle_transitions rnd (only_event Begin) init = (init, [], None) \<and>
   handle_transitions rnd (only_event Complete) init =
     (init\<lparr>voltage := [], monitoring := True\<rparr>, [BeginMonitoring], None) \<and>
   handle_transitions rnd (only_event Abort) init = (init, [], None)"
  by (simp add: init_def estimate_capacity_empty)

subsection \<open>Release events\<close>

text \<open>
  C5. Started from the initial variables, in every iteration the loop gets to, the
  event of a button is true exactly when the button read pressed in the iteration
  before and reads released in this one; it is false in the first iteration, while
  the button stays pressed and while it stays released. As long as no exception
  ends the loop, there is one such triple of events for every iteration.
\<close>

theorem release_events:
  "(snd (snd (run rnd ps init)) = None \<longrightarrow> length (event_trace rnd ps init) = length ps) \<and>
   (i < length (event_trace rnd ps init) \<longrightarrow>
      event_trace rnd ps init ! i =
        (0 < i \<and> \<not> s_charge_begin (ps ! (i - 1)) \<and> s_charge_begin (ps ! i),
         0 < i \<and> \<not> s_charge_complete (ps ! (i - 1)) \<and> s_charge_complete (ps ! i),
         0 < i \<and> \<not> s_charge_abort (ps ! (i - 1)) \<and> s_charge_abort (ps ! i)))"
proof -
  have "event_trace rnd ps init ! i =
        (0 < i \<and> \<not> s_charge_begin (ps ! (i - 1)) \<and> s_charge_begin (ps ! i),
         0 < i \<and> \<not> s_charge_complete (ps ! (i - 1)) \<and> s_charge_complete (ps ! i),
         0 < i \<and> \<not> s_charge_abort (ps ! (i - 1)) \<and> s_charge_abort (ps ! i))"
    if "i < length (event_trace rnd ps init)"
    using event_trace_nth [OF that] by (simp add: init_def)
  then show ?thesis using event_trace_length by blast
qed

theorem release_events_witness:
  "length (event_trace (\<lambda>x. x)
     [\<lparr>s_charge_begin = False, s_charge_complete = True, s_charge_abort = True, voltage_sense = Some 40000\<rparr>,
      \<lparr>s_charge_begin = False, s_charge_complete = True, s_charge_abort = True, voltage_sense = Some 40000\<rparr>,
      \<lparr>s_charge_begin = True, s_charge_complete = True, s_charge_abort = True, voltage_sense = Some 40000\<rparr>,
      \<lparr>s_charge_begin = True, s_charge_complete = True, s_charge_abort = True, voltage_sense = Some 40000\<rparr>]
     init) = 4 \<and>
   event_trace (\<lambda>x. x)
     [\<lparr>s_charge_begin = False, s_charge_complete = True, s_charge_abort = True, voltage_sense = Some 40000\<rparr>,
      \<lparr>s_charge_begin = False, s_charge_complete = True, s_charge_abort = True, voltage_sense = Some 40000\<rparr>,
      \<lparr>s_charge_begin = True, s_charge_complete = True, s_charge_abort = True, voltage_sense = Some 40000\<rparr>,
      \<lparr>s_charge_begin = True, s_charge_complete = True, s_charge_abort = True, voltage_sense = Some 40000\<rparr>]
     init ! 2 = (True, False, False)"
proof -
  let ?down = "\<lparr>s_charge_begin = False, s_charge_complete = True, s_charge_abort = True,
                 voltage_sense = Some 40000\<rparr>"
  let ?up = "\<lparr>s_charge_begin = True, s_charge_complete = True, s_charge_abort = True,
               voltage_sense = Some 40000\<rparr>"
  have n: "snd (snd (run (\<lambda>x. x) [?down, ?down, ?up, ?up] init)) = None"
    by (simp add: init_def loop_body_def detect_events_def count_half_sec_def
        grab_data_point_def Let_def)
  from release_events [where rnd = "\<lambda>x. x" and ps = "[?down, ?down, ?up, ?up]" and i = 2] n
  show ?thesis by simp
qed

text \<open>
  The example of the specification: pressed, pressed, released, released gives the
  events false, false, true, false.
\<close>

lemma release_events_example:
  "event_trace (\<lambda>x. x)
     [\<lparr>s_charge_begin = False, s_charge_complete = True, s_charge_abort = True, voltage_sense = Some 40000\<rparr>,
      \<lparr>s_charge_begin = False, s_charge_complete = True, s_charge_abort = True, voltage_sense = Some 40000\<rparr>,
      \<lparr>s_charge_begin = True, s_charge_complete = True, s_charge_abort = True, voltage_sense = Some 40000\<rparr>,
      \<lparr>s_charge_begin = True, s_charge_complete = True, s_charge_abort = True, voltage_sense = Some 40000\<rparr>]
     init =
   [(False, False, False), (False, False, False), (True, False, False), (False, False, False)]"
  by (simp add: init_def loop_body_def detect_events_def count_half_sec_def
      grab_data_point_def Let_def)

subsection \<open>Sampling\<close>

text \<open>
  C7. For every value of the variables and every iteration of the loop: an
  iteration that leaves \<open>monitoring\<close> unset appends no sample and leaves \<open>voltage\<close>
  as it was; an iteration in which the counter \<open>half_sec\<close> is not zero after its
  update appends no sample; and an iteration that appends a sample appends exactly
  one, with \<open>monitoring\<close> set when the iteration reaches the sampling block and
  \<open>half_sec\<close> equal to zero.
\<close>

theorem sampling_gate:
  assumes "loop_body rnd p s = (s', out, r)"
  shows "(\<not> monitoring s' \<longrightarrow> voltage s' = voltage s \<and> samples_printed out = 0) \<and>
         (half_sec s' \<noteq> 0 \<longrightarrow>
            (voltage s' = voltage s \<or> voltage s' = []) \<and> samples_printed out = 0) \<and>
         (0 < samples_printed out \<longrightarrow>
            monitoring s' \<and> half_sec s' = 0 \<and> samples_printed out = 1 \<and>
            (\<exists>v. voltage s' = voltage s @ [v] \<or> voltage s' = [v]))"
  using assms
proof (cases rule: loop_body_cases)
  case (raised e)
  from handle_transitions_fields [OF raised(1)] raised(2)
  have "s' = snd (detect_events p (count_half_sec s)) \<and> samples_printed out = 0"
    by simp
  then show ?thesis by simp
next
  case (went_on s3 out3 out4)
  from handle_transitions_fields [OF went_on(1)]
  have h: "samples_printed out3 = 0 \<and>
      (voltage s3 = voltage s \<or> voltage s3 = [] \<and> monitoring s3)"
    by simp
  from went_on(2) have g: "(if monitoring s3 \<and> half_sec s3 = 0
          then (\<exists>v. get_volts rnd (voltage_sense p) = Inr v \<and> r = None \<and>
                    voltage s' = voltage s3 @ [v] \<and> samples_printed out4 = 1) \<or>
               (\<exists>e. get_volts rnd (voltage_sense p) = Inl e \<and> r = Some e \<and>
                    s' = s3 \<and> out4 = [])
          else s' = s3 \<and> out4 = [] \<and> r = None)"
    by (rule grab_data_point_gate)
  from grab_data_point_fields [OF went_on(2)]
  have f: "half_sec s' = half_sec s3 \<and> monitoring s' = monitoring s3"
    by simp
  have c: "samples_printed out = samples_printed out3 + samples_printed out4"
    using went_on(3) by (simp add: samples_printed_def)
  show ?thesis
  proof (cases "monitoring s3 \<and> half_sec s3 = 0")
    case True
    with g h f c show ?thesis by (auto simp add: samples_printed_def)
  next
    case False
    with g h f c show ?thesis by (auto simp add: samples_printed_def)
  qed
qed

theorem sampling_gate_witness:
  "loop_body (\<lambda>x. x)
     \<lparr>s_charge_begin = True, s_charge_complete = True, s_charge_abort = True,
      voltage_sense = Some 40000\<rparr>
     (init\<lparr>voltage := [3.1], half_sec := 59\<rparr>) =
     (init\<lparr>voltage := [3.1], half_sec := 0\<rparr>, [], None) \<and>
   \<not> monitoring (init\<lparr>voltage := [3.1], half_sec := 0\<rparr>) \<and>
   voltage (init\<lparr>voltage := [3.1], half_sec := 0\<rparr>) =
     voltage (init\<lparr>voltage := [3.1], half_sec := 59\<rparr>) \<and>
   samples_printed [] = 0 \<and>
   loop_body (\<lambda>x. x)
     \<lparr>s_charge_begin = True, s_charge_complete = True, s_charge_abort = True,
      voltage_sense = Some 40000\<rparr>
     (init\<lparr>monitoring := True, voltage := [3.1], half_sec := 59\<rparr>) =
     (init\<lparr>monitoring := True, voltage := [3.1, 171875 / 58368], half_sec := 0\<rparr>,
      [SampleTaken 1 (171875 / 58368)], None) \<and>
   0 < samples_printed [SampleTaken 1 (171875 / 58368)] \<and>
   monitoring (init\<lparr>monitoring := True, voltage := [3.1, 171875 / 58368], half_sec := 0\<rparr>) \<and>
   half_sec (init\<lparr>monitoring := True, voltage := [3.1, 171875 / 58368], half_sec := 0\<rparr>) = 0"
proof -
  let ?up = "\<lparr>s_charge_begin = True, s_charge_complete = True, s_charge_abort = True,
               voltage_sense = Some 40000\<rparr>"
  have idle: "loop_body (\<lambda>x. x) ?up (init\<lparr>voltage := [3.1], half_sec := 59\<rparr>) =
      (init\<lparr>voltage := [3.1], half_sec := 0\<rparr>, [], None)"
    by (simp add: init_def loop_body_def detect_events_def count_half_sec_def
        grab_data_point_def Let_def)
  have busy: "loop_body (\<lambda>x. x) ?up (init\<lparr>monitoring := True, voltage := [3.1], half_sec := 59\<rparr>) =
      (init\<lparr>monitoring := True, voltage := [3.1, 171875 / 58368], half_sec := 0\<rparr>,
       [SampleTaken 1 (171875 / 58368)], None)"
    by (simp add: init_def loop_body_def detect_events_def count_half_sec_def
        grab_data_point_def get_volts_def samples_per_minute_def Let_def)
  have taken: "0 < samples_printed [SampleTaken 1 (171875 / 58368)]"
    by (simp add: samples_printed_def)
  have quiet: "\<not> monitoring (init\<lparr>voltage := [3.1], half_sec := 0\<rparr>)"
    by (simp add: init_def)
  from sampling_gate [OF idle] sampling_gate [OF busy] idle busy taken quiet
  show ?thesis by simp
qed

text \<open>
  C8, as the script has it. When an iteration reaches the sampling block with
  \<open>monitoring\<close> set and \<open>half_sec\<close> zero and the read of the analog pin raises,
  nothing is appended to \<open>voltage\<close>, no sample line is printed and the read is not
  tried again; but nothing catches the exception either, so the iteration and the
  loop end there, and the iterations that would follow are never run.
\<close>

theorem sensor_failure_ends_loop:
  assumes "handle_transitions rnd (fst (detect_events p (count_half_sec s)))
             (snd (detect_events p (count_half_sec s))) = (s3, out3, None)"
    and "monitoring s3" and "half_sec s3 = 0" and "voltage_sense p = None"
  shows "grab_data_point rnd p s3 = (s3, [], Some SensorReadError) \<and>
         loop_body rnd p s = (s3, out3, Some SensorReadError) \<and>
         run rnd (p # ps) s = (s3, out3, Some SensorReadError) \<and>
         samples_printed out3 = 0 \<and>
         (voltage s3 = voltage s \<or> voltage s3 = [])"
proof -
  have g: "grab_data_point rnd p s3 = (s3, [], Some SensorReadError)"
    using assms(2-4) by (simp add: grab_data_point_def get_volts_def Let_def)
  have l: "loop_body rnd p s = (s3, out3, Some SensorReadError)"
    using assms(1) g
    by (cases "detect_events p (count_half_sec s)")
      (simp add: loop_body_def del: handle_transitions.simps)
  then have r: "run rnd (p # ps) s = (s3, out3, Some SensorReadError)"
    by simp
  have "samples_printed out3 = 0 \<and> (voltage s3 = voltage s \<or> voltage s3 = [])"
    using handle_transitions_fields [OF assms(1)] by auto
  with g l r show ?thesis by blast
qed

theorem sensor_failure_ends_loop_witness:
  "handle_transitions (\<lambda>x. x)
     (fst (detect_events
        \<lparr>s_charge_begin = True, s_charge_complete = True, s_charge_abort = True,
         voltage_sense = None\<rparr>
        (count_half_sec (init\<lparr>monitoring := True, voltage := [3.1], half_sec := 59\<rparr>))))
     (snd (detect_events
        \<lparr>s_charge_begin = True, s_charge_complete = True, s_charge_abort = True,
         voltage_sense = None\<rparr>
        (count_half_sec (init\<lparr>monitoring := True, voltage := [3.1], half_sec := 59\<rparr>)))) =
     (init\<lparr>monitoring := True, voltage := [3.1], half_sec := 0\<rparr>, [], None) \<and>
   monitoring (init\<lparr>monitoring := True, voltage := [3.1], half_sec := 0\<rparr>) \<and>
   half_sec (init\<lparr>monitoring := True, voltage := [3.1], half_sec := 0\<rparr>) = 0 \<and>
   voltage_sense \<lparr>s_charge_begin = True, s_charge_complete = True, s_charge_abort = True,
                  voltage_sense = None\<rparr> = None \<and>
   run (\<lambda>x. x)
     [\<lparr>s_charge_begin = True, s_charge_complete = True, s_charge_abort = True,
       voltage_sense = None\<rparr>]
     (init\<lparr>monitoring := True, voltage := [3.1], half_sec := 59\<rparr>) =
     (init\<lparr>monitoring := True, voltage := [3.1], half_sec := 0\<rparr>, [], Some SensorReadError)"
proof -
  let ?p = "\<lparr>s_charge_begin = True, s_charge_complete = True, s_charge_abort = True,
              voltage_sense = None\<rparr>"
  let ?s = "init\<lparr>monitoring := True, voltage := [3.1], half_sec := 59\<rparr>"
  let ?s3 = "init\<lparr>monitoring := True, voltage := [3.1], half_sec := 0\<rparr>"
  have h: "handle_transitions (\<lambda>x. x) (fst (detect_events ?p (count_half_sec ?s)))
             (snd (detect_events ?p (count_half_sec ?s))) = (?s3, [], None)"
    by (simp add: init_def detect_events_def count_half_sec_def Let_def)
  have m: "monitoring ?s3" and z: "half_sec ?s3 = 0" and n: "voltage_sense ?p = None"
    by simp_all
  from sensor_failure_ends_loop [OF h m z n, where ps = "[]"] h m z n
  show ?thesis by simp
qed

text \<open>
  Where C8 as written fails: two iterations, the read raising in the first. The loop
  ends in the first; the counter shows that the second never ran.
\<close>

theorem sensor_failure_example:
  "run (\<lambda>x. x)
     [\<lparr>s_charge_begin = True, s_charge_complete = True, s_charge_abort = True,
       voltage_sense = None\<rparr>,
      \<lparr>s_charge_begin = True, s_charge_complete = True, s_charge_abort = True,
       voltage_sense = Some 40000\<rparr>]
     (init\<lparr>monitoring := True, half_sec := 59\<rparr>) =
   (init\<lparr>monitoring := True, half_sec := 0\<rparr>, [], Some SensorReadError)"
  by (simp add: init_def loop_body_def detect_events_def count_half_sec_def
      grab_data_point_def get_volts_def Let_def)

text \<open>
  C9. The transition block runs before the sampling block. When the loop is not
  monitoring, the counter stands at 59, and the charge-complete button is released
  without a charge-begin release in the same iteration, then that iteration wraps
  the counter to zero, empties \<open>voltage\<close>, sets \<open>monitoring\<close> and appends the first
  sample at once.
\<close>

theorem first_sample_on_transition:
  assumes "float_rounding rnd" and "\<not> monitoring s" and "half_sec s = 59"
    and "b_cc_down s" and "s_charge_complete p"
    and "\<not> (b_cb_down s \<and> s_charge_begin p)"
    and "voltage_sense p = Some reading"
  shows "\<exists>v. get_volts rnd (Some reading) = Inr v \<and>
             loop_body rnd p s =
               (s\<lparr>half_sec := 0, b_cb_down := \<not> s_charge_begin p, b_cc_down := False,
                  b_ca_down := \<not> s_charge_abort p, voltage := [v], monitoring := True\<rparr>,
                [BeginMonitoring, SampleTaken (rnd (1 / samples_per_minute)) v], None)"
proof -
  from assms(1) obtain v where v: "get_volts rnd (Some reading) = Inr v"
    using get_volts_returns by blast
  have "loop_body rnd p s =
               (s\<lparr>half_sec := 0, b_cb_down := \<not> s_charge_begin p, b_cc_down := False,
                  b_ca_down := \<not> s_charge_abort p, voltage := [v], monitoring := True\<rparr>,
                [BeginMonitoring, SampleTaken (rnd (1 / samples_per_minute)) v], None)"
    using assms(2-7) v
    by (auto simp add: loop_body_def detect_events_def count_half_sec_def
        grab_data_point_def Let_def)
  with v show ?thesis by blast
qed

theorem first_sample_on_transition_witness:
  "float_rounding (\<lambda>x. x) \<and>
   \<not> monitoring (init\<lparr>b_cc_down := True, half_sec := 59\<rparr>) \<and>
   half_sec (init\<lparr>b_cc_down := True, half_sec := 59\<rparr>) = 59 \<and>
   b_cc_down (init\<lparr>b_cc_down := True, half_sec := 59\<rparr>) \<and>
   loop_body (\<lambda>x. x)
     \<lparr>s_charge_begin = True, s_charge_complete = True, s_charge_abort = True,
      voltage_sense = Some 40000\<rparr>
     (init\<lparr>b_cc_down := True, half_sec := 59\<rparr>) =
     (init\<lparr>monitoring := True, voltage := [171875 / 58368]\<rparr>,
      [BeginMonitoring, SampleTaken (1 / 2) (171875 / 58368)], None)"
proof -
  let ?p = "\<lparr>s_charge_begin = True, s_charge_complete = True, s_charge_abort = True,
              voltage_sense = Some 40000\<rparr>"
  let ?s = "init\<lparr>b_cc_down := True, half_sec := 59\<rparr>"
  have r: "float_rounding (\<lambda>x. x)" by (rule float_rounding_exact)
  have a: "\<not> monitoring ?s" "half_sec ?s = 59" "b_cc_down ?s" "s_charge_complete ?p"
    "\<not> (b_cb_down ?s \<and> s_charge_begin ?p)" "voltage_sense ?p = Some 40000"
    by (simp_all add: init_def)
  have v: "get_volts (\<lambda>x. x) (Some 40000) = Inr (171875 / 58368)"
    by (simp add: get_volts_def Let_def)
  from first_sample_on_transition [OF r a] obtain w where
    w: "get_volts (\<lambda>x. x) (Some 40000) = Inr w" and
    lb: "loop_body (\<lambda>x. x) ?p ?s =
           (?s\<lparr>half_sec := 0, b_cb_down := \<not> s_charge_begin ?p, b_cc_down := False,
               b_ca_down := \<not> s_charge_abort ?p, voltage := [w], monitoring := True\<rparr>,
            [BeginMonitoring, SampleTaken (1 / samples_per_minute) w], None)"
    by auto
  from w v have "w = 171875 / 58368" by simp
  with lb r a show ?thesis by (simp add: init_def samples_per_minute_def)
qed

subsection \<open>The numbers of the estimate\<close>

text \<open>
  C2. For the list of the two literals \<open>3.3\<close> and \<open>3.0\<close>, with a load resistance of 15
  and 2 samples per minute, and for every rounding within the relative error bound,
  \<open>estimate_capacity\<close> returns, and each of its values rounds to the same three
  significant figures as the stated one: \<open>v_sum\<close> to 6.30, \<open>i_sum\<close> to 0.420,
  \<open>i_avg\<close> to 0.210, the charge used to 0.00350 Ah, \<open>v_cutoff\<close> to 3.23, \<open>ratio\<close> to
  0.238 and the total capacity to 0.000832 Ah, where \<open>v_cutoff\<close> is
  \<open>-0.449 * i_avg + 3.323\<close>.
\<close>

theorem numeric_round_trip:
  assumes R: "float_rounding rnd"
  shows "\<exists>out l. estimate_capacity rnd [rnd 3.3, rnd 3.0] = (out, Inr l) \<and>
           6.295 \<le> v_sum l \<and> v_sum l < 6.305 \<and>
           0.4195 \<le> i_sum l \<and> i_sum l < 0.4205 \<and>
           0.2095 \<le> i_avg l \<and> i_avg l < 0.2105 \<and>
           0.003495 \<le> energy_used l \<and> energy_used l < 0.003505 \<and>
           v_cutoff l = rnd (rnd (- rnd 0.449 * i_avg l) + rnd 3.323) \<and>
           3.225 \<le> v_cutoff l \<and> v_cutoff l < 3.235 \<and>
           0.2375 \<le> ratio l \<and> ratio l < 0.2385 \<and>
           0.0008315 \<le> energy_total l \<and> energy_total l < 0.0008325"
proof -
  define a where "a = rnd 3.3"
  define b where "b = rnd 3.0"
  have a: "3.299996852 \<le> a \<and> a \<le> 3.300003148"
    unfolding a_def
    by (rule rnd_interval [OF R, where lo = "3.3" and hi = "3.3" and m = "3.3"]) simp_all
  have b: "2.999997138 \<le> b \<and> b \<le> 3.000002862"
    unfolding b_def
    by (rule rnd_interval [OF R, where lo = "3" and hi = "3" and m = "3"]) simp_all
  from a b have "a \<noteq> b" by auto
  then have "hd [a, b] \<noteq> last [a, b]" by simp
  then obtain out l where e: "estimate_capacity rnd [a, b] = (out, Inr l)"
    using estimate_capacity_sloped [OF R, of "[a, b]"] by auto
  note f = estimate_capacity_locals [OF e]
  have s1: "3.299993704 \<le> rnd (0 + a) \<and> rnd (0 + a) \<le> 3.300006296"
    by (rule rnd_interval [OF R, where lo = "3.299996852" and hi = "3.300003148"
          and m = "3.300003148"]) (use a in simp_all)
  have vs_eq: "v_sum l = rnd (rnd (0 + a) + b)"
    using f by (simp add: py_sum_def)
  have vs: "6.299984833 \<le> v_sum l \<and> v_sum l \<le> 6.300015167"
    unfolding vs_eq
    by (rule rnd_interval [OF R, where lo = "6.299990842" and hi = "6.300009158"
          and m = "6.300009158"]) (use s1 b in simp_all)
  have is_eq: "i_sum l = rnd (v_sum l / 15)"
    using f by (simp add: load_resistance_def)
  have isum: "0.419998588 \<le> i_sum l \<and> i_sum l \<le> 0.420001412"
    unfolding is_eq
    by (rule rnd_interval [OF R, where lo = "0.41999898886" and hi = "0.42000101114"
          and m = "0.42000101114"]) (use vs in simp_all)
  have half: "0.209999093 \<le> rnd (i_sum l / 2) \<and> rnd (i_sum l / 2) \<le> 0.210000907"
    by (rule rnd_interval [OF R, where lo = "0.209999294" and hi = "0.210000706"
          and m = "0.210000706"]) (use isum in simp_all)
  have ia_eq: "i_avg l = rnd (i_sum l / 2)"
    using f by simp
  have ia: "0.209999093 \<le> i_avg l \<and> i_avg l \<le> 0.210000907"
    unfolding ia_eq by (rule half)
  have eu_eq: "energy_used l = rnd (rnd (i_sum l / 2) / 60)"
    using f by (simp add: samples_per_minute_def minutes_per_hour_def)
  have eu: "0.003499981545 \<le> energy_used l \<and> energy_used l \<le> 0.003500018455"
    unfolding eu_eq
    by (rule rnd_interval [OF R, where lo = "0.0034999848833" and hi = "0.0035000151167"
          and m = "0.0035000151167"]) (use half in simp_all)
  have k: "0.448999571 \<le> rnd 0.449 \<and> rnd 0.449 \<le> 0.449000429"
    by (rule rnd_interval [OF R, where lo = "0.449" and hi = "0.449" and m = "0.449"]) simp_all
  have mag: "0.448999571 * 0.209999093 \<le> rnd 0.449 * i_avg l \<and>
             rnd 0.449 * i_avg l \<le> 0.449000429 * 0.210000907"
    by (rule product_interval) (use k ia in simp_all)
  have sl: "- 0.094290588 \<le> rnd (- rnd 0.449 * i_avg l) \<and>
            rnd (- rnd 0.449 * i_avg l) \<le> - 0.094289412"
    by (rule rnd_interval [OF R, where lo = "- 0.09429049734" and hi = "- 0.09428950266"
          and m = "0.09429049734"]) (use mag in simp_all)
  have ic: "3.32299683 \<le> rnd 3.323 \<and> rnd 3.323 \<le> 3.32300317"
    by (rule rnd_interval [OF R, where lo = "3.323" and hi = "3.323" and m = "3.323"]) simp_all
  have vc_eq: "v_cutoff l = rnd (rnd (- rnd 0.449 * i_avg l) + rnd 3.323)"
    using f by (simp add: adjusted_cutoff_def Let_def)
  have vc: "3.228703162 \<le> v_cutoff l \<and> v_cutoff l \<le> 3.228716838"
    unfolding vc_eq
    by (rule rnd_interval [OF R, where lo = "3.228706242" and hi = "3.228713758"
          and m = "3.228713758"]) (use sl ic in simp_all)
  have st: "v_monitor_start l = a" and en: "v_monitor_end l = b"
    using f by simp_all
  have num: "0.071279946 \<le> rnd (a - v_cutoff l) \<and> rnd (a - v_cutoff l) \<le> 0.071300054"
    by (rule rnd_interval [OF R, where lo = "0.071280014" and hi = "0.071299986"
          and m = "0.071299986"]) (use a vc in simp_all)
  have den: "0.299993703 \<le> rnd (a - b) \<and> rnd (a - b) \<le> 0.300006297"
    by (rule rnd_interval [OF R, where lo = "0.29999399" and hi = "0.30000601"
          and m = "0.30000601"]) (use a b in simp_all)
  have quo: "0.071279946 / 0.300006297 \<le> rnd (a - v_cutoff l) / rnd (a - b) \<and>
             rnd (a - v_cutoff l) / rnd (a - b) \<le> 0.071300054 / 0.299993703"
    by (rule quotient_interval) (use num den in simp_all)
  have ra_eq: "ratio l = rnd (rnd (a - v_cutoff l) / rnd (a - b))"
    using f st en by simp
  have ra: "0.237594606 \<le> ratio l \<and> ratio l \<le> 0.237672063"
    unfolding ra_eq
    by (rule rnd_interval [OF R, where lo = "0.071279946 / 0.300006297"
          and hi = "0.071300054 / 0.299993703" and m = "0.071300054 / 0.299993703"])
      (use quo in simp_all)
  have prod: "0.237594606 * 0.003499981545 \<le> ratio l * energy_used l \<and>
              ratio l * energy_used l \<le> 0.237672063 * 0.003500018455"
    by (rule product_interval) (use ra eu in simp_all)
  have et_eq: "energy_total l = rnd (ratio l * energy_used l)"
    using f by simp
  have et: "0.000831575942 \<le> energy_total l \<and> energy_total l \<le> 0.000831857401"
    unfolding et_eq
    by (rule rnd_interval [OF R, where lo = "0.237594606 * 0.003499981545"
          and hi = "0.237672063 * 0.003500018455" and m = "0.237672063 * 0.003500018455"])
      (use prod in simp_all)
  from vs isum ia eu vc ra et vc_eq e show ?thesis
    unfolding a_def b_def
    by (intro exI [of _ out] exI [of _ l]) simp
qed

theorem numeric_round_trip_witness:
  "float_rounding (\<lambda>x. x) \<and>
   (\<exists>out l. estimate_capacity (\<lambda>x. x) [3.3, 3.0] = (out, Inr l) \<and>
      6.295 \<le> v_sum l \<and> v_sum l < 6.305 \<and>
      0.4195 \<le> i_sum l \<and> i_sum l < 0.4205 \<and>
      0.2095 \<le> i_avg l \<and> i_avg l < 0.2105 \<and>
      0.003495 \<le> energy_used l \<and> energy_used l < 0.003505 \<and>
      v_cutoff l = - 0.449 * i_avg l + 3.323 \<and>
      3.225 \<le> v_cutoff l \<and> v_cutoff l < 3.235 \<and>
      0.2375 \<le> ratio l \<and> ratio l < 0.2385 \<and>
      0.0008315 \<le> energy_total l \<and> energy_total l < 0.0008325)"
  using numeric_round_trip [OF float_rounding_exact] float_rounding_exact
  by simp

text \<open>In exact arithmetic the values are the stated ones.\<close>

lemma numeric_round_trip_exact:
  "snd (estimate_capacity (\<lambda>x. x) [3.3, 3.0]) =
     Inr \<lparr>v_sum = 6.3, i_sum = 0.42, i_avg = 0.21, energy_used = 0.0035,
          v_monitor_start = 3.3, v_monitor_end = 3, v_cutoff = 3.22871,
          ratio = 7129 / 30000, energy_total = 49903 / 60000000\<rparr>"
  by (simp add: estimate_capacity_def py_sum_def adjusted_cutoff_def Let_def script_constants)

end
